theory Spec2Isabelle
  imports Main
begin

section \<open>The store\<close>

text \<open>
  The handlers of \<^verbatim>\<open>api/views/views.py\<close> work on three tables through
  SQLAlchemy. The table declarations (\<^verbatim>\<open>api.models.models\<close>) are not part of
  the sources at hand; the columns below are the ones the handlers read and write.
  A table is the list of its rows in insertion order. The primary key of a
  reservation is never read by a handler and is left out.
\<close>

record user =
  u_id :: int
  username :: string
  password_hash :: string
  is_admin :: bool

record movie =
  m_id :: int
  title :: string
  description :: "string option"
  room :: string
  seats :: int

record reservation =
  movie_id :: int
  user_id :: "int option"
  room_select :: string

record db =
  users :: "user list"
  movies :: "movie list"
  reservations :: "reservation list"

definition empty_db :: db where
  "empty_db = \<lparr>users = [], movies = [], reservations = []\<rparr>"

text \<open>
  The store assigns the integer primary key of a new row. The handlers do not say
  how; the model takes one more than the largest key in the table, 1 in an empty
  table. What the proofs below use of it is that the key is not in the table yet.
\<close>

fun max_id :: "int list \<Rightarrow> int" where
  "max_id [] = 0"
| "max_id (i # is) = max i (max_id is)"

definition next_id :: "int list \<Rightarrow> int" where
  "next_id ids = max_id ids + 1"

text \<open>\<^verbatim>\<open>Model.query.get(pk)\<close>: the row with that primary key, if any.\<close>

definition Movie_query_get :: "db \<Rightarrow> int \<Rightarrow> movie option" where
  "Movie_query_get d i = find (\<lambda>m. m_id m = i) (movies d)"

definition User_query_get :: "db \<Rightarrow> int \<Rightarrow> user option" where
  "User_query_get d i = find (\<lambda>u. u_id u = i) (users d)"

section \<open>Collaborators\<close>

text \<open>
  Password hashing and verification (\<^verbatim>\<open>User.set_password\<close>,
  \<^verbatim>\<open>User.check_password\<close>) and token issuance
  (\<^verbatim>\<open>create_access_token\<close>) live outside the sources at hand; they are
  parameters of the model.
\<close>

record facility =
  set_password :: "string \<Rightarrow> string"
  check_password :: "string \<Rightarrow> string option \<Rightarrow> bool"
  create_access_token :: "int \<Rightarrow> bool \<Rightarrow> string"

text \<open>The identity carried by an accepted token, as \<^verbatim>\<open>login\<close> builds it.\<close>

record jwt_identity =
  ident_id :: int
  ident_is_admin :: bool

section \<open>Requests and responses\<close>

text \<open>
  A JSON body is read with \<^verbatim>\<open>data.get(key)\<close>, which is \<^verbatim>\<open>None\<close> for an
  absent key. The bodies are typed as the handlers' documented schemas type them.
\<close>

record user_json =
  j_username :: "string option"
  j_password :: "string option"

record reset_json =
  j_new_password :: "string option"

record reservation_json =
  j_movie_id :: "int option"
  j_user_id :: "int option"

record showing_json =
  j_title :: "string option"
  j_description :: "string option"
  j_room :: "string option"
  j_seats :: "int option"

datatype body =
  Message string
  | LoginBody string string int bool

type_synonym response = "body \<times> nat"

definition status :: "response \<times> db \<Rightarrow> nat" where
  "status r = snd (fst r)"

definition store :: "response \<times> db \<Rightarrow> db" where
  "store r = snd r"

text \<open>The error classes of the contract, as the responses the handlers build.\<close>

definition NotFound :: response where
  "NotFound = (Message ''Movie not found'', 404)"

definition NoAvailability :: response where
  "NoAvailability = (Message ''Don't have available seats to this movie'', 400)"

definition InvalidInput :: response where
  "InvalidInput = (Message ''Title, room and seats are required'', 400)"

definition Conflict :: response where
  "Conflict = (Message ''Room already in use'', 400)"

definition Forbidden :: response where
  "Forbidden = (Message ''Access denied, you are not an admin'', 403)"

definition Unauthorized :: response where
  "Unauthorized = (Message ''Credentials are incorrect. Please try again.'', 401)"

section \<open>Handlers\<close>

text \<open>
  \<^verbatim>\<open>admin_required\<close>: the wrapped handler runs only for an identity whose
  \<^verbatim>\<open>is_admin\<close> is set; every other caller is answered 403 and the store is
  not touched. \<^verbatim>\<open>None\<close> stands for a token that carries no identity.
\<close>

definition admin_required ::
  "jwt_identity option \<Rightarrow> (db \<Rightarrow> response \<times> db) \<Rightarrow> db \<Rightarrow> response \<times> db" where
  "admin_required current_user f d =
     (case current_user of
        None \<Rightarrow> (Forbidden, d)
      | Some ident \<Rightarrow> if \<not> ident_is_admin ident then (Forbidden, d) else f d)"

text \<open>\<^verbatim>\<open>create_user\<close>; \<^verbatim>\<open>if username and password\<close> is false of \<^verbatim>\<open>None\<close> and of the empty string.\<close>

definition create_user :: "facility \<Rightarrow> user_json \<Rightarrow> db \<Rightarrow> response \<times> db" where
  "create_user fc data d =
     (case (j_username data, j_password data) of
        (Some name, Some password) \<Rightarrow>
          if name \<noteq> [] \<and> password \<noteq> [] then
            (case find (\<lambda>u. username u = name) (users d) of
               Some existing_user \<Rightarrow> ((Message ''The user already exists'', 409), d)
             | None \<Rightarrow>
                 ((Message ''User created successfully'', 201),
                  d\<lparr>users := users d @
                     [\<lparr>u_id = next_id (map u_id (users d)), username = name,
                       password_hash = set_password fc password, is_admin = False\<rparr>]\<rparr>))
          else ((Message ''User and password are required'', 400), d)
      | _ \<Rightarrow> ((Message ''User and password are required'', 400), d))"

definition reset_password :: "facility \<Rightarrow> int \<Rightarrow> reset_json \<Rightarrow> db \<Rightarrow> response \<times> db" where
  "reset_password fc uid data d =
     (case User_query_get d uid of
        Some usr \<Rightarrow>
          (case j_new_password data of
             Some new_password \<Rightarrow>
               ((Message ''Password reset successfully'', 200),
                d\<lparr>users := map (\<lambda>u. if u_id u = uid
                                     then u\<lparr>password_hash := set_password fc new_password\<rparr>
                                     else u) (users d)\<rparr>)
           | None \<Rightarrow> ((Message ''The new password is required'', 400), d))
      | None \<Rightarrow> ((Message ''User not found'', 404), d))"

text \<open>
  \<^verbatim>\<open>login\<close>: a lookup by username
  (\<^verbatim>\<open>User.query.filter_by(username=username).first()\<close>, which finds nothing
  for \<^verbatim>\<open>None\<close>), then the verification of the password against the stored
  hash. The store is not written.
\<close>

definition User_by_username :: "db \<Rightarrow> string option \<Rightarrow> user option" where
  "User_by_username d name =
     (case name of None \<Rightarrow> None | Some n \<Rightarrow> find (\<lambda>u. username u = n) (users d))"

definition login :: "facility \<Rightarrow> user_json \<Rightarrow> db \<Rightarrow> response \<times> db" where
  "login fc data d =
     (case User_by_username d (j_username data) of
        Some usr \<Rightarrow>
          if check_password fc (password_hash usr) (j_password data) then
            ((LoginBody ''Login successful''
                (create_access_token fc (u_id usr) (is_admin usr)) (u_id usr) (is_admin usr), 200), d)
          else (Unauthorized, d)
      | None \<Rightarrow> (Unauthorized, d))"

text \<open>
  \<^verbatim>\<open>create_reservation\<close> (POST /reservations). \<^verbatim>\<open>Movie.query.get(None)\<close>
  finds nothing. The seat count written back is the one read, less one, and the
  new reservation row is added in the same commit.
\<close>

definition create_reservation :: "reservation_json \<Rightarrow> db \<Rightarrow> response \<times> db" where
  "create_reservation data d =
     (case j_movie_id data of
        None \<Rightarrow> (NotFound, d)
      | Some mid \<Rightarrow>
          (case Movie_query_get d mid of
             None \<Rightarrow> (NotFound, d)
           | Some mv \<Rightarrow>
               if seats mv \<le> 0 then (NoAvailability, d)
               else
                 ((Message ''Reservation created successfully'', 201),
                  d\<lparr>movies := map (\<lambda>m. if m_id m = mid then m\<lparr>seats := seats mv - 1\<rparr> else m)
                                 (movies d),
                    reservations := reservations d @
                      [\<lparr>movie_id = mid, user_id = j_user_id data, room_select = room mv\<rparr>]\<rparr>)))"

text \<open>
  \<^verbatim>\<open>add_showing_movie\<close> (POST /showing_movies), the body under
  \<^verbatim>\<open>admin_required\<close>. \<^verbatim>\<open>not title or not room or not seats\<close> holds of an absent
  field, of an empty string and of the integer 0, and of nothing else.
\<close>

definition add_showing_movie :: "showing_json \<Rightarrow> db \<Rightarrow> response \<times> db" where
  "add_showing_movie data d =
     (case (j_title data, j_room data, j_seats data) of
        (Some t, Some r, Some s) \<Rightarrow>
          if t = [] \<or> r = [] \<or> s = 0 then (InvalidInput, d)
          else
            (case find (\<lambda>m. room m = r) (movies d) of
               Some existing_movie \<Rightarrow> (Conflict, d)
             | None \<Rightarrow>
                 ((Message ''Movie added successfully'', 201),
                  d\<lparr>movies := movies d @
                     [\<lparr>m_id = next_id (map m_id (movies d)), title = t,
                       description = j_description data, room = r, seats = s\<rparr>]\<rparr>))
      | _ \<Rightarrow> (InvalidInput, d))"

text \<open>
  \<^verbatim>\<open>delete_movie\<close> (DELETE /movies/id), the body under \<^verbatim>\<open>admin_required\<close>:
  the reservations of the movie and the movie go in one commit.
\<close>

definition delete_movie :: "int \<Rightarrow> db \<Rightarrow> response \<times> db" where
  "delete_movie mid d =
     (case Movie_query_get d mid of
        None \<Rightarrow> (NotFound, d)
      | Some mv \<Rightarrow>
          ((Message ''Movie deleted successfully'', 200),
           d\<lparr>reservations := filter (\<lambda>r. movie_id r \<noteq> mid) (reservations d),
             movies := filter (\<lambda>m. m_id m \<noteq> mid) (movies d)\<rparr>))"

text \<open>
  \<^verbatim>\<open>create_app\<close> (\<^verbatim>\<open>api/app.py\<close>): on start-up a default administrator is
  added when the users table has none.
\<close>

definition create_default_admin :: "facility \<Rightarrow> db \<Rightarrow> db" where
  "create_default_admin fc d =
     d\<lparr>users := users d @
        [\<lparr>u_id = next_id (map u_id (users d)), username = ''admin'',
          password_hash = set_password fc ''admin'', is_admin = True\<rparr>]\<rparr>"

definition create_app :: "facility \<Rightarrow> db \<Rightarrow> db" where
  "create_app fc d =
     (if find is_admin (users d) = None then create_default_admin fc d else d)"

section \<open>Sequences of requests\<close>

datatype request =
  PostUsers user_json
  | PostResetPassword int reset_json
  | PostLogin user_json
  | PostReservations reservation_json
  | PostShowingMovies "jwt_identity option" showing_json
  | DeleteMovies "jwt_identity option" int

fun exec :: "facility \<Rightarrow> request \<Rightarrow> db \<Rightarrow> response \<times> db" where
  "exec fc (PostUsers data) d = create_user fc data d"
| "exec fc (PostResetPassword uid data) d = reset_password fc uid data d"
| "exec fc (PostLogin data) d = login fc data d"
| "exec fc (PostReservations data) d = create_reservation data d"
| "exec fc (PostShowingMovies who data) d = admin_required who (add_showing_movie data) d"
| "exec fc (DeleteMovies who mid) d = admin_required who (delete_movie mid) d"

fun run :: "facility \<Rightarrow> request list \<Rightarrow> db \<Rightarrow> db" where
  "run fc [] d = d"
| "run fc (rq # rqs) d = run fc rqs (store (exec fc rq d))"

section \<open>Notions of the contract\<close>

text \<open>The number of live reservations that reference a showing.\<close>

definition reserved :: "db \<Rightarrow> int \<Rightarrow> nat" where
  "reserved d mid = length (filter (\<lambda>r. movie_id r = mid) (reservations d))"

text \<open>The showing a reservation request refers to, if it exists.\<close>

definition referenced_showing :: "reservation_json \<Rightarrow> db \<Rightarrow> movie option" where
  "referenced_showing data d =
     (case j_movie_id data of None \<Rightarrow> None | Some mid \<Rightarrow> Movie_query_get d mid)"

definition Created :: response where
  "Created = (Message ''Reservation created successfully'', 201)"

text \<open>
  The number of successful reservation attempts against the showing \<open>S\<close> in a
  sequence of requests run from the store \<open>d\<close>.
\<close>

fun booked :: "facility \<Rightarrow> int \<Rightarrow> request list \<Rightarrow> db \<Rightarrow> nat" where
  "booked fc S [] d = 0"
| "booked fc S (rq # rqs) d =
     (case rq of
        PostReservations data \<Rightarrow>
          (if j_movie_id data = Some S \<and> status (exec fc rq d) = 201 then 1 else 0)
      | _ \<Rightarrow> 0)
     + booked fc S rqs (store (exec fc rq d))"

text \<open>
  The total seat count of a showing is not a column of the store: it is the
  \<open>seats\<close> value the showing was created with. \<open>total_seats\<close> records it, per
  primary key, along a sequence of requests.
\<close>

definition created :: "request \<Rightarrow> db \<Rightarrow> response \<times> db \<Rightarrow> (int \<rightharpoonup> int) \<Rightarrow> (int \<rightharpoonup> int)" where
  "created rq d res tot =
     (case rq of
        PostShowingMovies who data \<Rightarrow>
          (case j_seats data of
             Some s \<Rightarrow> if status res = 201 then tot(next_id (map m_id (movies d)) \<mapsto> s) else tot
           | None \<Rightarrow> tot)
      | _ \<Rightarrow> tot)"

fun total_seats :: "facility \<Rightarrow> request list \<Rightarrow> db \<Rightarrow> (int \<rightharpoonup> int) \<Rightarrow> (int \<rightharpoonup> int)" where
  "total_seats fc [] d tot = tot"
| "total_seats fc (rq # rqs) d tot =
     total_seats fc rqs (store (exec fc rq d)) (created rq d (exec fc rq d) tot)"

text \<open>
  The input constraint of a reservation attempt on its user: every reservation
  request of the sequence names a user that exists when the request is made.
\<close>

fun users_exist :: "facility \<Rightarrow> request list \<Rightarrow> db \<Rightarrow> bool" where
  "users_exist fc [] d = True"
| "users_exist fc (rq # rqs) d =
     ((case rq of
         PostReservations data \<Rightarrow>
           (case j_user_id data of None \<Rightarrow> False | Some u \<Rightarrow> User_query_get d u \<noteq> None)
       | _ \<Rightarrow> True)
      \<and> users_exist fc rqs (store (exec fc rq d)))"

text \<open>Store invariants used below.\<close>

definition keyed :: "db \<Rightarrow> bool" where
  "keyed d = (distinct (map m_id (movies d)) \<and>
              list_all (\<lambda>r. find (\<lambda>m. m_id m = movie_id r) (movies d) \<noteq> None) (reservations d))"

definition balanced :: "db \<Rightarrow> (int \<rightharpoonup> int) \<Rightarrow> bool" where
  "balanced d tot =
     list_all (\<lambda>mv. case tot (m_id mv) of
                       None \<Rightarrow> False
                     | Some t \<Rightarrow> seats mv + int (reserved d (m_id mv)) = t
                                \<and> (0 \<le> t \<longrightarrow> 0 \<le> seats mv))
              (movies d)"

definition user_bound :: "db \<Rightarrow> bool" where
  "user_bound d =
     list_all (\<lambda>r. case user_id r of None \<Rightarrow> False | Some u \<Rightarrow> User_query_get d u \<noteq> None)
              (reservations d)"

subsection \<open>Sample data\<close>

definition plain_facility :: facility where
  "plain_facility =
     \<lparr>set_password = (\<lambda>p. p), check_password = (\<lambda>h p. p = Some h),
      create_access_token = (\<lambda>i a. ''token'')\<rparr>"

definition admin :: "jwt_identity option" where
  "admin = Some \<lparr>ident_id = 1, ident_is_admin = True\<rparr>"

definition alien :: movie where
  "alien = \<lparr>m_id = 1, title = ''Alien'', description = None, room = ''A'', seats = 1\<rparr>"

definition one_seat_left :: db where
  "one_seat_left = \<lparr>users = [], movies = [alien], reservations = []\<rparr>"

definition sold_out :: db where
  "sold_out =
     \<lparr>users = [], movies = [alien\<lparr>seats := 0\<rparr>],
      reservations = [\<lparr>movie_id = 1, user_id = Some 7, room_select = ''A''\<rparr>]\<rparr>"

definition alien_json :: showing_json where
  "alien_json =
     \<lparr>j_title = Some ''Alien'', j_description = None, j_room = Some ''A'', j_seats = Some 1\<rparr>"

definition negative_json :: showing_json where
  "negative_json = alien_json\<lparr>j_seats := Some (- 5)\<rparr>"

definition seat_request :: "int \<Rightarrow> int \<Rightarrow> reservation_json" where
  "seat_request mid uid = \<lparr>j_movie_id = Some mid, j_user_id = Some uid\<rparr>"

definition two_attempts :: "request list" where
  "two_attempts = [PostReservations (seat_request 1 7), PostReservations (seat_request 1 8)]"

definition opening_night :: "request list" where
  "opening_night = PostShowingMovies admin alien_json # two_attempts"

definition stranger :: "request list" where
  "stranger = [PostShowingMovies admin alien_json, PostReservations (seat_request 1 99)]"

definition regular :: "request list" where
  "regular = [PostShowingMovies admin alien_json, PostReservations (seat_request 1 1)]"

definition lobby :: db where
  "lobby =
     \<lparr>users = [\<lparr>u_id = 1, username = ''admin'', password_hash = ''admin'', is_admin = True\<rparr>],
      movies = [], reservations = []\<rparr>"

definition ripley :: user where
  "ripley = \<lparr>u_id = 1, username = ''ripley'', password_hash = ''nostromo'', is_admin = False\<rparr>"

definition crew :: db where
  "crew = \<lparr>users = [ripley], movies = [], reservations = []\<rparr>"

definition login_json :: "string \<Rightarrow> string \<Rightarrow> user_json" where
  "login_json name password = \<lparr>j_username = Some name, j_password = Some password\<rparr>"


section \<open>Reservation attempts\<close>

text \<open>
  C3. A reservation attempt answers NotFound (404) exactly when the showing does
  not exist, NoAvailability (400) exactly when the showing exists and has no seat
  left (\<open>seats \<le> 0\<close>); in both cases the store is left as it was: no seat is taken and
  no reservation is recorded.
\<close>

theorem create_reservation_failures:
  "(fst (create_reservation data d) = NotFound) = (referenced_showing data d = None)
   \<and> (fst (create_reservation data d) = NoAvailability) =
       (\<exists>mv. referenced_showing data d = Some mv \<and> seats mv \<le> 0)
   \<and> (fst (create_reservation data d) = NotFound
        \<or> fst (create_reservation data d) = NoAvailability
       \<longrightarrow> store (create_reservation data d) = d)"
  by (auto simp: create_reservation_def referenced_showing_def NotFound_def NoAvailability_def
                 store_def split: option.splits)

theorem create_reservation_failures_witness:
  "fst (create_reservation (seat_request 2 7) sold_out) = NotFound
   \<and> store (create_reservation (seat_request 2 7) sold_out) = sold_out
   \<and> fst (create_reservation (seat_request 1 7) sold_out) = NoAvailability
   \<and> store (create_reservation (seat_request 1 7) sold_out) = sold_out"
proof -
  have nf: "referenced_showing (seat_request 2 7) sold_out = None"
    by (simp add: referenced_showing_def seat_request_def sold_out_def Movie_query_get_def
                  alien_def)
  have na: "\<exists>mv. referenced_showing (seat_request 1 7) sold_out = Some mv \<and> seats mv \<le> 0"
    by (simp add: referenced_showing_def seat_request_def sold_out_def Movie_query_get_def
                  alien_def)
  from nf na create_reservation_failures [of "seat_request 2 7" sold_out]
    create_reservation_failures [of "seat_request 1 7" sold_out]
  show ?thesis by simp
qed

subsection \<open>Looking rows up after a write\<close>

lemma find_seats_same:
  "find (\<lambda>m. m_id m = i) ms = Some mv \<Longrightarrow>
   find (\<lambda>m. m_id m = i) (map (\<lambda>m. if m_id m = i then m\<lparr>seats := s\<rparr> else m) ms)
     = Some (mv\<lparr>seats := s\<rparr>)"
  by (induction ms) (auto split: if_splits)

lemma find_seats_other:
  "j \<noteq> i \<Longrightarrow>
   find (\<lambda>m. m_id m = j) (map (\<lambda>m. if m_id m = i then m\<lparr>seats := s\<rparr> else m) ms)
     = find (\<lambda>m. m_id m = j) ms"
  by (induction ms) auto

lemma find_key: "find (\<lambda>m. m_id m = i) ms = Some mv \<Longrightarrow> m_id mv = i"
  by (induction ms) (auto split: if_splits)

lemma create_reservation_ok:
  assumes "j_movie_id data = Some mid" and "Movie_query_get d mid = Some mv" and "0 < seats mv"
  shows "create_reservation data d =
     (Created,
      d\<lparr>movies := map (\<lambda>m. if m_id m = mid then m\<lparr>seats := seats mv - 1\<rparr> else m) (movies d),
        reservations := reservations d @
          [\<lparr>movie_id = mid, user_id = j_user_id data, room_select = room mv\<rparr>]\<rparr>)"
  using assms by (simp add: create_reservation_def Created_def)

lemma create_reservation_cases:
  "create_reservation data d = (NotFound, d) \<or> create_reservation data d = (NoAvailability, d)
   \<or> (\<exists>mid mv. j_movie_id data = Some mid \<and> Movie_query_get d mid = Some mv \<and> 0 < seats mv)"
  by (auto simp: create_reservation_def split: option.splits)


lemma referenced_showingD:
  assumes "referenced_showing data d = Some w"
  shows "j_movie_id data = Some (m_id w)" and "Movie_query_get d (m_id w) = Some w"
proof -
  from assms obtain mid where mid: "j_movie_id data = Some mid" "Movie_query_get d mid = Some w"
    by (cases "j_movie_id data") (simp_all add: referenced_showing_def)
  from mid(2) have "m_id w = mid"
    unfolding Movie_query_get_def by (rule find_key)
  with mid show "j_movie_id data = Some (m_id w)" and "Movie_query_get d (m_id w) = Some w"
    by simp_all
qed

lemma create_reservation_effect:
  assumes sh: "referenced_showing data d = Some w" and pos: "0 < seats w"
  shows "fst (create_reservation data d) = Created"
    and "Movie_query_get (store (create_reservation data d)) (m_id w)
           = Some (w\<lparr>seats := seats w - 1\<rparr>)"
    and "i \<noteq> m_id w \<Longrightarrow>
           Movie_query_get (store (create_reservation data d)) i = Movie_query_get d i"
    and "reservations (store (create_reservation data d))
           = reservations d @
             [\<lparr>movie_id = m_id w, user_id = j_user_id data, room_select = room w\<rparr>]"
    and "reserved (store (create_reservation data d)) (m_id w) = reserved d (m_id w) + 1"
    and "users (store (create_reservation data d)) = users d"
proof -
  note eq = create_reservation_ok [OF referenced_showingD [OF sh] pos]
  from referenced_showingD(2) [OF sh]
  have fw: "find (\<lambda>m. m_id m = m_id w) (movies d) = Some w"
    by (simp only: Movie_query_get_def)
  show "fst (create_reservation data d) = Created"
    by (simp only: eq fst_conv)
  show "Movie_query_get (store (create_reservation data d)) (m_id w)
           = Some (w\<lparr>seats := seats w - 1\<rparr>)"
    unfolding eq store_def Movie_query_get_def by (simp add: find_seats_same [OF fw])
  show "Movie_query_get (store (create_reservation data d)) i = Movie_query_get d i"
    if "i \<noteq> m_id w"
    unfolding eq store_def Movie_query_get_def by (simp add: find_seats_other [OF that])
  show "reservations (store (create_reservation data d))
           = reservations d @
             [\<lparr>movie_id = m_id w, user_id = j_user_id data, room_select = room w\<rparr>]"
    unfolding eq store_def by simp
  show "reserved (store (create_reservation data d)) (m_id w) = reserved d (m_id w) + 1"
    unfolding eq store_def by (simp add: reserved_def)
  show "users (store (create_reservation data d)) = users d"
    unfolding eq store_def by simp
qed

lemma create_reservation_unchanged:
  "store (create_reservation data d) = d
   \<or> (\<exists>w. referenced_showing data d = Some w \<and> 0 < seats w)"
  using create_reservation_cases [of data d]
  by (auto simp: store_def referenced_showing_def)

text \<open>
  C1. When the referenced showing exists and has a seat left, the attempt answers
  201, the showing's seat count goes down by exactly one (every other showing is
  untouched), and exactly one reservation row, bound to that showing and to the
  user of the request, is added. The two writes go together: whatever the request,
  the store either is left as it was or has both the decrement and the new row.
\<close>

theorem create_reservation_success:
  "(referenced_showing data d = Some mv \<and> 0 < seats mv \<longrightarrow>
      fst (create_reservation data d) = Created
    \<and> Movie_query_get (store (create_reservation data d)) (m_id mv)
        = Some (mv\<lparr>seats := seats mv - 1\<rparr>)
    \<and> (\<forall>i. i \<noteq> m_id mv \<longrightarrow>
          Movie_query_get (store (create_reservation data d)) i = Movie_query_get d i)
    \<and> reservations (store (create_reservation data d))
        = reservations d @
          [\<lparr>movie_id = m_id mv, user_id = j_user_id data, room_select = room mv\<rparr>]
    \<and> reserved (store (create_reservation data d)) (m_id mv) = reserved d (m_id mv) + 1
    \<and> users (store (create_reservation data d)) = users d)
   \<and> (store (create_reservation data d) = d
      \<or> (\<exists>w. referenced_showing data d = Some w
            \<and> Movie_query_get (store (create_reservation data d)) (m_id w)
                = Some (w\<lparr>seats := seats w - 1\<rparr>)
            \<and> reservations (store (create_reservation data d))
                = reservations d @
                  [\<lparr>movie_id = m_id w, user_id = j_user_id data, room_select = room w\<rparr>]))"
proof (rule conjI)
  show "referenced_showing data d = Some mv \<and> 0 < seats mv \<longrightarrow>
      fst (create_reservation data d) = Created
    \<and> Movie_query_get (store (create_reservation data d)) (m_id mv)
        = Some (mv\<lparr>seats := seats mv - 1\<rparr>)
    \<and> (\<forall>i. i \<noteq> m_id mv \<longrightarrow>
          Movie_query_get (store (create_reservation data d)) i = Movie_query_get d i)
    \<and> reservations (store (create_reservation data d))
        = reservations d @
          [\<lparr>movie_id = m_id mv, user_id = j_user_id data, room_select = room mv\<rparr>]
    \<and> reserved (store (create_reservation data d)) (m_id mv) = reserved d (m_id mv) + 1
    \<and> users (store (create_reservation data d)) = users d"
  proof
    assume h: "referenced_showing data d = Some mv \<and> 0 < seats mv"
    then have sh: "referenced_showing data d = Some mv" and pos: "0 < seats mv"
      by (rule conjunct1, rule conjunct2)
    note e = create_reservation_effect [OF sh pos]
    show "fst (create_reservation data d) = Created
      \<and> Movie_query_get (store (create_reservation data d)) (m_id mv)
          = Some (mv\<lparr>seats := seats mv - 1\<rparr>)
      \<and> (\<forall>i. i \<noteq> m_id mv \<longrightarrow>
            Movie_query_get (store (create_reservation data d)) i = Movie_query_get d i)
      \<and> reservations (store (create_reservation data d))
          = reservations d @
            [\<lparr>movie_id = m_id mv, user_id = j_user_id data, room_select = room mv\<rparr>]
      \<and> reserved (store (create_reservation data d)) (m_id mv) = reserved d (m_id mv) + 1
      \<and> users (store (create_reservation data d)) = users d"
      by (intro conjI allI impI) (rule e(1), rule e(2), erule e(3), rule e(4), rule e(5), rule e(6))
  qed
next
  show "store (create_reservation data d) = d
      \<or> (\<exists>w. referenced_showing data d = Some w
            \<and> Movie_query_get (store (create_reservation data d)) (m_id w)
                = Some (w\<lparr>seats := seats w - 1\<rparr>)
            \<and> reservations (store (create_reservation data d))
                = reservations d @
                  [\<lparr>movie_id = m_id w, user_id = j_user_id data, room_select = room w\<rparr>])"
  proof (rule disjE [OF create_reservation_unchanged [of data d]])
    assume "store (create_reservation data d) = d"
    then show ?thesis by (rule disjI1)
  next
    assume "\<exists>w. referenced_showing data d = Some w \<and> 0 < seats w"
    then obtain w where w: "referenced_showing data d = Some w" "0 < seats w" by blast
    show ?thesis
      by (rule disjI2, rule exI [of _ w], intro conjI)
         (rule w(1), rule create_reservation_effect(2) [OF w], rule create_reservation_effect(4) [OF w])
  qed
qed

theorem create_reservation_success_witness:
  "fst (create_reservation (seat_request 1 7) one_seat_left) = Created
   \<and> Movie_query_get (store (create_reservation (seat_request 1 7) one_seat_left)) 1
       = Some (alien\<lparr>seats := 0\<rparr>)
   \<and> reservations (store (create_reservation (seat_request 1 7) one_seat_left))
       = [\<lparr>movie_id = 1, user_id = Some 7, room_select = ''A''\<rparr>]
   \<and> reserved (store (create_reservation (seat_request 1 7) one_seat_left)) 1 = 1"
proof -
  have sh: "referenced_showing (seat_request 1 7) one_seat_left = Some alien \<and> 0 < seats alien"
    by (simp add: referenced_showing_def seat_request_def one_seat_left_def
                  Movie_query_get_def alien_def)
  have vals: "m_id alien = 1" "seats alien - 1 = 0" "room alien = ''A''"
    "j_user_id (seat_request 1 7) = Some 7" "reservations one_seat_left = []"
    "reserved one_seat_left 1 = 0"
    by (simp_all add: alien_def seat_request_def one_seat_left_def reserved_def)
  from create_reservation_success [of "seat_request 1 7" one_seat_left alien] sh
  show ?thesis by (simp add: vals)
qed

section \<open>Creating a showing\<close>




section \<open>Deleting a showing\<close>

lemma find_filter_same: "find (\<lambda>m. m_id m = i) (filter (\<lambda>m. m_id m \<noteq> i) ms) = None"
  by (induction ms) auto

lemma find_filter_other:
  "j \<noteq> i \<Longrightarrow> find (\<lambda>m. m_id m = j) (filter (\<lambda>m. m_id m \<noteq> i) ms) = find (\<lambda>m. m_id m = j) ms"
  by (induction ms) auto

lemma filter_filter_same:
  "filter (\<lambda>r. movie_id r = i) (filter (\<lambda>r. movie_id r \<noteq> i) rs) = []"
  by (induction rs) auto

lemma filter_filter_other:
  "j \<noteq> i \<Longrightarrow>
   filter (\<lambda>r. movie_id r = j) (filter (\<lambda>r. movie_id r \<noteq> i) rs) = filter (\<lambda>r. movie_id r = j) rs"
  by (induction rs) auto

lemma delete_movie_found:
  "Movie_query_get d mid = Some mv \<Longrightarrow>
   delete_movie mid d =
     ((Message ''Movie deleted successfully'', 200),
      d\<lparr>reservations := filter (\<lambda>r. movie_id r \<noteq> mid) (reservations d),
        movies := filter (\<lambda>m. m_id m \<noteq> mid) (movies d)\<rparr>)"
  by (simp add: delete_movie_def)

lemma delete_movie_missing:
  "Movie_query_get d mid = None \<Longrightarrow> delete_movie mid d = (NotFound, d)"
  by (simp add: delete_movie_def)

text \<open>
  C7, for the handler an administrator reaches through \<^verbatim>\<open>admin_required\<close>.
  Deleting an absent showing answers NotFound (404) and leaves the store as it
  was. Deleting an existing showing answers 200 and removes, in the one commit,
  the showing and every reservation that references it: afterwards the showing
  cannot be found and the number of reservations referencing it is 0. Other
  showings, their reservations and the users are untouched.
\<close>

theorem delete_movie_cascade:
  "(Movie_query_get d mid = None \<longrightarrow>
      fst (delete_movie mid d) = NotFound \<and> store (delete_movie mid d) = d)
   \<and> (Movie_query_get d mid \<noteq> None \<longrightarrow>
      fst (delete_movie mid d) = (Message ''Movie deleted successfully'', 200)
      \<and> Movie_query_get (store (delete_movie mid d)) mid = None
      \<and> reserved (store (delete_movie mid d)) mid = 0
      \<and> (\<forall>i. i \<noteq> mid \<longrightarrow>
            Movie_query_get (store (delete_movie mid d)) i = Movie_query_get d i
            \<and> reserved (store (delete_movie mid d)) i = reserved d i)
      \<and> users (store (delete_movie mid d)) = users d)"
proof (intro conjI impI)
  assume "Movie_query_get d mid = None"
  then show "fst (delete_movie mid d) = NotFound" "store (delete_movie mid d) = d"
    by (simp_all add: delete_movie_missing store_def)
next
  assume "Movie_query_get d mid \<noteq> None"
  then obtain mv where "Movie_query_get d mid = Some mv" by blast
  note eq = delete_movie_found [OF this]
  show "fst (delete_movie mid d) = (Message ''Movie deleted successfully'', 200)"
    by (simp only: eq fst_conv)
  show "Movie_query_get (store (delete_movie mid d)) mid = None"
    unfolding eq store_def Movie_query_get_def by (simp add: find_filter_same)
  show "reserved (store (delete_movie mid d)) mid = 0"
    unfolding eq store_def reserved_def by (simp add: filter_filter_same del: filter_filter)
  show "\<forall>i. i \<noteq> mid \<longrightarrow>
            Movie_query_get (store (delete_movie mid d)) i = Movie_query_get d i
            \<and> reserved (store (delete_movie mid d)) i = reserved d i"
    unfolding eq store_def reserved_def Movie_query_get_def
    by (simp add: find_filter_other filter_filter_other del: filter_filter)
  show "users (store (delete_movie mid d)) = users d"
    unfolding eq store_def by simp
qed

theorem delete_movie_cascade_witness:
  "fst (delete_movie 2 sold_out) = NotFound \<and> store (delete_movie 2 sold_out) = sold_out
   \<and> fst (delete_movie 1 sold_out) = (Message ''Movie deleted successfully'', 200)
   \<and> Movie_query_get (store (delete_movie 1 sold_out)) 1 = None
   \<and> reserved (store (delete_movie 1 sold_out)) 1 = 0
   \<and> reserved sold_out 1 = 1"
proof -
  have a: "Movie_query_get sold_out 2 = None" and b: "Movie_query_get sold_out 1 \<noteq> None"
    and c: "reserved sold_out 1 = 1"
    by (simp_all add: Movie_query_get_def sold_out_def alien_def reserved_def)
  from a b c delete_movie_cascade [of sold_out 2] delete_movie_cascade [of sold_out 1]
  show ?thesis by simp
qed

section \<open>Logging in\<close>

text \<open>
  C10. A login whose username matches no user and a login whose username matches
  a user but whose password fails verification get the same response: status 401
  with the one message, and nothing else. Neither writes the store.
\<close>

theorem login_failure_uniform:
  "User_by_username d (j_username data) = None
   \<and> User_by_username d' (j_username data') = Some usr
   \<and> \<not> check_password fc (password_hash usr) (j_password data')
   \<longrightarrow> fst (login fc data d) = fst (login fc data' d')
       \<and> fst (login fc data d) = Unauthorized
       \<and> store (login fc data d) = d \<and> store (login fc data' d') = d'"
  by (simp add: login_def store_def)

theorem login_failure_uniform_witness:
  "fst (login plain_facility (login_json ''ash'' ''nostromo'') crew)
     = fst (login plain_facility (login_json ''ripley'' ''sulaco'') crew)
   \<and> fst (login plain_facility (login_json ''ash'' ''nostromo'') crew) = Unauthorized"
proof -
  have "User_by_username crew (j_username (login_json ''ash'' ''nostromo'')) = None
    \<and> User_by_username crew (j_username (login_json ''ripley'' ''sulaco'')) = Some ripley
    \<and> \<not> check_password plain_facility (password_hash ripley)
          (j_password (login_json ''ripley'' ''sulaco''))"
    by (simp add: User_by_username_def login_json_def crew_def ripley_def plain_facility_def)
  with login_failure_uniform [of crew "login_json ''ash'' ''nostromo''" crew
      "login_json ''ripley'' ''sulaco''" ripley plain_facility]
  show ?thesis by blast
qed

section \<open>What a request does to the store\<close>

lemma map_u_id_hash:
  "map u_id (map (\<lambda>u. if u_id u = i then u\<lparr>password_hash := h\<rparr> else u) us) = map u_id us"
  by (induction us) auto

lemma create_user_effect:
  "movies (store (create_user fc data d)) = movies d
   \<and> reservations (store (create_user fc data d)) = reservations d
   \<and> set (map u_id (users d)) \<subseteq> set (map u_id (users (store (create_user fc data d))))"
  by (auto simp: create_user_def store_def split: option.splits)

lemma reset_password_effect:
  "movies (store (reset_password fc uid data d)) = movies d
   \<and> reservations (store (reset_password fc uid data d)) = reservations d
   \<and> map u_id (users (store (reset_password fc uid data d))) = map u_id (users d)"
  by (simp add: reset_password_def store_def map_u_id_hash split: option.splits)

lemma login_effect: "store (login fc data d) = d"
  by (simp add: login_def store_def split: option.splits)

lemma add_showing_movie_cases:
  "add_showing_movie data d = (InvalidInput, d) \<or> add_showing_movie data d = (Conflict, d)
   \<or> (\<exists>t r s. j_title data = Some t \<and> j_room data = Some r \<and> j_seats data = Some s
         \<and> find (\<lambda>m. room m = r) (movies d) = None
         \<and> add_showing_movie data d =
             ((Message ''Movie added successfully'', 201),
              d\<lparr>movies := movies d @
                 [\<lparr>m_id = next_id (map m_id (movies d)), title = t,
                   description = j_description data, room = r, seats = s\<rparr>]\<rparr>))"
  by (auto simp: add_showing_movie_def split: option.splits)

lemma delete_movie_cases:
  "delete_movie mid d = (NotFound, d)
   \<or> (\<exists>mv. Movie_query_get d mid = Some mv
         \<and> delete_movie mid d =
             ((Message ''Movie deleted successfully'', 200),
              d\<lparr>reservations := filter (\<lambda>r. movie_id r \<noteq> mid) (reservations d),
                movies := filter (\<lambda>m. m_id m \<noteq> mid) (movies d)\<rparr>))"
  by (auto simp: delete_movie_def split: option.splits)

lemma admin_required_cases:
  "admin_required who f d = (Forbidden, d)
   \<or> ((\<exists>ident. who = Some ident \<and> ident_is_admin ident) \<and> admin_required who f d = f d)"
  by (auto simp: admin_required_def split: option.splits)

lemma exec_effect:
  obtains
    (same) "movies (store (exec fc rq d)) = movies d"
      and "reservations (store (exec fc rq d)) = reservations d"
      and "set (map u_id (users d)) \<subseteq> set (map u_id (users (store (exec fc rq d))))"
      and "status (exec fc rq d) \<noteq> 201 \<or> (\<exists>data. rq = PostUsers data)"
  | (reserved) data mv where "rq = PostReservations data"
      and "referenced_showing data d = Some mv" and "0 < seats mv"
      and "exec fc rq d =
             (Created,
              d\<lparr>movies := map (\<lambda>m. if m_id m = m_id mv then m\<lparr>seats := seats mv - 1\<rparr> else m)
                             (movies d),
                reservations := reservations d @
                  [\<lparr>movie_id = m_id mv, user_id = j_user_id data, room_select = room mv\<rparr>]\<rparr>)"
  | (added) who data t r s where "rq = PostShowingMovies who data"
      and "j_title data = Some t" and "j_room data = Some r" and "j_seats data = Some s"
      and "find (\<lambda>m. room m = r) (movies d) = None"
      and "exec fc rq d =
             ((Message ''Movie added successfully'', 201),
              d\<lparr>movies := movies d @
                 [\<lparr>m_id = next_id (map m_id (movies d)), title = t,
                   description = j_description data, room = r, seats = s\<rparr>]\<rparr>)"
  | (deleted) ident mid mv where "rq = DeleteMovies (Some ident) mid" and "ident_is_admin ident"
      and "Movie_query_get d mid = Some mv"
      and "exec fc rq d =
             ((Message ''Movie deleted successfully'', 200),
              d\<lparr>reservations := filter (\<lambda>r. movie_id r \<noteq> mid) (reservations d),
                movies := filter (\<lambda>m. m_id m \<noteq> mid) (movies d)\<rparr>)"
proof (cases rq)
  case (PostUsers data)
  with create_user_effect [of fc data d] show ?thesis
    by (intro same) auto
next
  case (PostResetPassword uid data)
  have "status (reset_password fc uid data d) \<noteq> 201"
    by (simp add: reset_password_def status_def split: option.splits)
  with PostResetPassword reset_password_effect [of fc uid data d] show ?thesis
    by (intro same) auto
next
  case (PostLogin data)
  have "status (login fc data d) \<noteq> 201"
    by (simp add: login_def status_def Unauthorized_def split: option.splits)
  with PostLogin login_effect [of fc data d] show ?thesis
    by (intro same) auto
next
  case (PostReservations data)
  from create_reservation_unchanged [of data d] show ?thesis
  proof
    assume u: "store (create_reservation data d) = d"
    have "status (create_reservation data d) \<noteq> 201"
    proof
      assume "status (create_reservation data d) = 201"
      then obtain w where w: "referenced_showing data d = Some w" "0 < seats w"
        using create_reservation_cases [of data d]
        by (auto simp: status_def NotFound_def NoAvailability_def referenced_showing_def)
      from create_reservation_effect(4) [OF w] u show False by simp
    qed
    with PostReservations u show ?thesis
      by (intro same) auto
  next
    assume "\<exists>w. referenced_showing data d = Some w \<and> 0 < seats w"
    then obtain w where w: "referenced_showing data d = Some w" "0 < seats w" by blast
    from create_reservation_ok [OF referenced_showingD [OF w(1)] w(2)] PostReservations w
    show ?thesis by (intro reserved) auto
  qed
next
  case (PostShowingMovies who data)
  from admin_required_cases [of who "add_showing_movie data" d] show ?thesis
  proof (elim disjE conjE)
    assume "admin_required who (add_showing_movie data) d = (Forbidden, d)"
    with PostShowingMovies show ?thesis
      by (intro same) (auto simp: store_def status_def Forbidden_def)
  next
    assume eq: "admin_required who (add_showing_movie data) d = add_showing_movie data d"
    from add_showing_movie_cases [of data d] show ?thesis
    proof (elim disjE exE conjE)
      assume "add_showing_movie data d = (InvalidInput, d)"
      with PostShowingMovies eq show ?thesis
        by (intro same) (auto simp: store_def status_def InvalidInput_def)
    next
      assume "add_showing_movie data d = (Conflict, d)"
      with PostShowingMovies eq show ?thesis
        by (intro same) (auto simp: store_def status_def Conflict_def)
    next
      fix t r s
      assume "j_title data = Some t" "j_room data = Some r" "j_seats data = Some s"
        "find (\<lambda>m. room m = r) (movies d) = None"
        "add_showing_movie data d =
             ((Message ''Movie added successfully'', 201),
              d\<lparr>movies := movies d @
                 [\<lparr>m_id = next_id (map m_id (movies d)), title = t,
                   description = j_description data, room = r, seats = s\<rparr>]\<rparr>)"
      with PostShowingMovies eq show ?thesis
        by (intro added) auto
    qed
  qed
next
  case (DeleteMovies who mid)
  from admin_required_cases [of who "delete_movie mid" d] show ?thesis
  proof (elim disjE conjE exE)
    assume "admin_required who (delete_movie mid) d = (Forbidden, d)"
    with DeleteMovies show ?thesis
      by (intro same) (auto simp: store_def status_def Forbidden_def)
  next
    fix ident
    assume eq: "admin_required who (delete_movie mid) d = delete_movie mid d"
      and who: "who = Some ident" "ident_is_admin ident"
    from delete_movie_cases [of mid d] show ?thesis
    proof (elim disjE exE conjE)
      assume "delete_movie mid d = (NotFound, d)"
      with DeleteMovies eq show ?thesis
        by (intro same) (auto simp: store_def status_def NotFound_def)
    next
      fix mv
      assume "Movie_query_get d mid = Some mv"
        "delete_movie mid d =
             ((Message ''Movie deleted successfully'', 200),
              d\<lparr>reservations := filter (\<lambda>r. movie_id r \<noteq> mid) (reservations d),
                movies := filter (\<lambda>m. m_id m \<noteq> mid) (movies d)\<rparr>)"
      with DeleteMovies eq who show ?thesis
        by (intro deleted) auto
    qed
  qed
qed

section \<open>One showing per room\<close>

lemma max_id_ge: "i \<in> set ids \<Longrightarrow> i \<le> max_id ids"
  by (induction ids) auto

lemma next_id_fresh: "m \<in> set ms \<Longrightarrow> m_id m \<noteq> next_id (map m_id ms)"
  using max_id_ge [of "m_id m" "map m_id ms"] by (auto simp: next_id_def)

lemma room_o_seats: "room \<circ> (\<lambda>m. if m_id m = i then m\<lparr>seats := s\<rparr> else m) = room"
  by (auto simp: fun_eq_iff)

lemma m_id_o_seats: "m_id \<circ> (\<lambda>m. if m_id m = i then m\<lparr>seats := s\<rparr> else m) = m_id"
  by (auto simp: fun_eq_iff)

lemma find_append:
  "find P (xs @ ys) = (case find P xs of None \<Rightarrow> find P ys | Some x \<Rightarrow> Some x)"
  by (induction xs) auto

lemma rooms_step:
  assumes "distinct (map room (movies d))"
  shows "distinct (map room (movies (store (exec fc rq d))))"
proof (cases rule: exec_effect [of fc rq d])
  case same
  with assms show ?thesis by simp
next
  case (reserved data mv)
  with assms show ?thesis by (simp add: store_def room_o_seats)
next
  case (added who data t r s)
  from added(5) have "r \<notin> room ` set (movies d)"
    by (auto simp: find_None_iff)
  with assms added(6) show ?thesis by (simp add: store_def)
next
  case (deleted ident mid mv)
  with assms show ?thesis by (simp add: store_def distinct_map_filter)
qed

lemma rooms_run:
  "distinct (map room (movies d)) \<Longrightarrow> distinct (map room (movies (run fc rqs d)))"
  by (induction rqs arbitrary: d) (simp_all add: rooms_step)

lemma movies_create_app: "movies (create_app fc empty_db) = []"
  and reservations_create_app: "reservations (create_app fc empty_db) = []"
  by (simp_all add: create_app_def create_default_admin_def empty_db_def)

text \<open>
  C6, for the handler an administrator reaches through \<^verbatim>\<open>admin_required\<close>.
  The clauses of the contract apply in order, the required-fields check first. For
  a request that passes the check (title and room present and not empty, seats
  present and not 0): if a showing already occupies the requested room, the
  answer is Conflict (400) and nothing is created; otherwise the showing is
  created, with the seat count that was asked for. Moreover an occupied room is
  answered 400, with nothing created, whatever the other fields. Hence, from
  start-up on, after every sequence of requests no two showings share a room.
\<close>

theorem add_showing_movie_room:
  "(j_room data = Some r \<and> find (\<lambda>m. room m = r) (movies d) \<noteq> None \<longrightarrow>
      status (add_showing_movie data d) = 400 \<and> store (add_showing_movie data d) = d)
   \<and> (j_title data = Some t \<and> t \<noteq> [] \<and> j_room data = Some r \<and> r \<noteq> []
       \<and> j_seats data = Some s \<and> s \<noteq> 0 \<longrightarrow>
        (find (\<lambda>m. room m = r) (movies d) \<noteq> None \<longrightarrow>
           fst (add_showing_movie data d) = Conflict
           \<and> store (add_showing_movie data d) = d)
      \<and> (find (\<lambda>m. room m = r) (movies d) = None \<longrightarrow>
           status (add_showing_movie data d) = 201
           \<and> (\<exists>mv. movies (store (add_showing_movie data d)) = movies d @ [mv]
                 \<and> title mv = t \<and> room mv = r \<and> seats mv = s
                 \<and> Movie_query_get (store (add_showing_movie data d)) (m_id mv) = Some mv)))
   \<and> distinct (map room (movies (run fc rqs (create_app fc empty_db))))"
proof (intro conjI impI)
  assume h: "j_room data = Some r \<and> find (\<lambda>m. room m = r) (movies d) \<noteq> None"
  then show "status (add_showing_movie data d) = 400"
    by (auto simp: add_showing_movie_def status_def InvalidInput_def Conflict_def
             split: option.splits)
  from h show "store (add_showing_movie data d) = d"
    by (auto simp: add_showing_movie_def store_def split: option.splits)
next
  assume "j_title data = Some t \<and> t \<noteq> [] \<and> j_room data = Some r \<and> r \<noteq> []
       \<and> j_seats data = Some s \<and> s \<noteq> 0"
    and "find (\<lambda>m. room m = r) (movies d) \<noteq> None"
  then show "fst (add_showing_movie data d) = Conflict"
    and "store (add_showing_movie data d) = d"
    by (auto simp: add_showing_movie_def store_def)
next
  assume v: "j_title data = Some t \<and> t \<noteq> [] \<and> j_room data = Some r \<and> r \<noteq> []
       \<and> j_seats data = Some s \<and> s \<noteq> 0"
    and free: "find (\<lambda>m. room m = r) (movies d) = None"
  let ?new = "\<lparr>m_id = next_id (map m_id (movies d)), title = t,
                description = j_description data, room = r, seats = s\<rparr>"
  from v free have eq: "add_showing_movie data d =
      ((Message ''Movie added successfully'', 201), d\<lparr>movies := movies d @ [?new]\<rparr>)"
    by (simp add: add_showing_movie_def)
  show "status (add_showing_movie data d) = 201"
    by (simp add: eq status_def)
  have fresh: "find (\<lambda>m. m_id m = next_id (map m_id (movies d))) (movies d) = None"
    by (simp add: find_None_iff next_id_fresh)
  show "\<exists>mv. movies (store (add_showing_movie data d)) = movies d @ [mv]
             \<and> title mv = t \<and> room mv = r \<and> seats mv = s
             \<and> Movie_query_get (store (add_showing_movie data d)) (m_id mv) = Some mv"
    by (rule exI [of _ ?new])
       (simp add: eq store_def Movie_query_get_def find_append fresh)
next
  show "distinct (map room (movies (run fc rqs (create_app fc empty_db))))"
    by (rule rooms_run) (simp add: movies_create_app)
qed

theorem add_showing_movie_room_witness:
  "fst (add_showing_movie alien_json one_seat_left) = Conflict
   \<and> status (add_showing_movie alien_json one_seat_left) = 400
   \<and> store (add_showing_movie alien_json one_seat_left) = one_seat_left
   \<and> status (add_showing_movie alien_json empty_db) = 201
   \<and> map seats (movies (store (add_showing_movie alien_json empty_db))) = [1]
   \<and> map room (movies (store (add_showing_movie alien_json empty_db))) = [''A'']"
proof -
  have valid: "j_title alien_json = Some ''Alien'' \<and> ''Alien'' \<noteq> []
      \<and> j_room alien_json = Some ''A'' \<and> ''A'' \<noteq> []
      \<and> j_seats alien_json = Some 1 \<and> (1::int) \<noteq> 0"
    by (simp add: alien_json_def)
  have taken: "find (\<lambda>m. room m = ''A'') (movies one_seat_left) \<noteq> None"
    by (simp add: one_seat_left_def alien_def)
  have free: "find (\<lambda>m. room m = ''A'') (movies empty_db) = None"
    and none: "movies empty_db = []"
    by (simp_all add: empty_db_def)
  from add_showing_movie_room
    [of alien_json "''A''" one_seat_left "''Alien''" 1 plain_facility "[]"] valid taken
  have a: "fst (add_showing_movie alien_json one_seat_left) = Conflict
   \<and> status (add_showing_movie alien_json one_seat_left) = 400
   \<and> store (add_showing_movie alien_json one_seat_left) = one_seat_left"
    by blast
  from add_showing_movie_room
    [of alien_json "''A''" empty_db "''Alien''" 1 plain_facility "[]"] valid free
  obtain mv where "status (add_showing_movie alien_json empty_db) = 201"
    "movies (store (add_showing_movie alien_json empty_db)) = movies empty_db @ [mv]"
    "room mv = ''A''" "seats mv = 1"
    by blast
  with a none show ?thesis by simp
qed

section \<open>Counting successful attempts\<close>

lemma booked_step:
  assumes found: "Movie_query_get d S = Some mv"
    and keep: "\<forall>ident. ident_is_admin ident \<longrightarrow> rq \<noteq> DeleteMovies (Some ident) S"
  shows "\<exists>mv'. Movie_query_get (store (exec fc rq d)) S = Some mv'
           \<and> seats mv' = seats mv - int (booked fc S [rq] d)
           \<and> (0 \<le> seats mv \<longrightarrow> 0 \<le> seats mv')"
proof (cases rule: exec_effect [of fc rq d])
  case same
  from same(4) have "booked fc S [rq] d = 0"
    by (cases rq) auto
  with same(1) found show ?thesis
    by (simp add: Movie_query_get_def)
next
  case (reserved data w)
  note sh = referenced_showingD [OF reserved(2)]
  show ?thesis
  proof (cases "m_id w = S")
    case True
    with sh(2) found have w: "w = mv" by simp
    from True sh(1) reserved(1,4) have b: "booked fc S [rq] d = 1"
      by (simp add: status_def Created_def)
    from found True w have fw: "find (\<lambda>m. m_id m = m_id mv) (movies d) = Some mv"
      by (simp add: Movie_query_get_def)
    from reserved(3,4) w True fw b show ?thesis
      by (simp add: store_def Movie_query_get_def find_seats_same)
  next
    case False
    with sh(1) reserved(1) have b: "booked fc S [rq] d = 0"
      by auto
    from False have "S \<noteq> m_id w" by blast
    with reserved(4) found b show ?thesis
      by (simp add: store_def Movie_query_get_def find_seats_other)
  qed
next
  case (added who data t r s)
  then have b: "booked fc S [rq] d = 0" by simp
  from added(6) found b show ?thesis
    by (simp add: store_def Movie_query_get_def find_append)
next
  case (deleted ident mid w)
  then have b: "booked fc S [rq] d = 0" by simp
  from deleted(1,2) keep have "S \<noteq> mid" by blast
  with deleted(4) found b show ?thesis
    by (simp add: store_def Movie_query_get_def find_filter_other)
qed

lemma booked_Cons:
  "booked fc S (rq # rqs) d = booked fc S [rq] d + booked fc S rqs (store (exec fc rq d))"
  by simp

lemma booked_run:
  assumes "Movie_query_get d S = Some mv"
    and "\<forall>ident. ident_is_admin ident \<longrightarrow> DeleteMovies (Some ident) S \<notin> set rqs"
  shows "\<exists>mv'. Movie_query_get (run fc rqs d) S = Some mv'
           \<and> seats mv' = seats mv - int (booked fc S rqs d)
           \<and> (0 \<le> seats mv \<longrightarrow> 0 \<le> seats mv')"
  using assms
proof (induction rqs arbitrary: d mv)
  case Nil
  then show ?case by simp
next
  case (Cons rq rqs)
  from Cons.prems(2) have keep: "\<forall>ident. ident_is_admin ident \<longrightarrow> rq \<noteq> DeleteMovies (Some ident) S"
    and rest: "\<forall>ident. ident_is_admin ident \<longrightarrow> DeleteMovies (Some ident) S \<notin> set rqs"
    by auto
  from booked_step [OF Cons.prems(1) keep, of fc]
  obtain m1 where m1: "Movie_query_get (store (exec fc rq d)) S = Some m1"
    "seats m1 = seats mv - int (booked fc S [rq] d)" "0 \<le> seats mv \<longrightarrow> 0 \<le> seats m1"
    by blast
  from Cons.IH [OF m1(1) rest]
  obtain m2 where m2: "Movie_query_get (run fc rqs (store (exec fc rq d))) S = Some m2"
    "seats m2 = seats m1 - int (booked fc S rqs (store (exec fc rq d)))"
    "0 \<le> seats m1 \<longrightarrow> 0 \<le> seats m2"
    by blast
  have split: "booked fc S (rq # rqs) d
      = booked fc S [rq] d + booked fc S rqs (store (exec fc rq d))"
    by (rule booked_Cons)
  have "run fc (rq # rqs) d = run fc rqs (store (exec fc rq d))"
    by simp
  with m1(2,3) m2 split show ?case
    by auto
qed

lemma sold_out_refused:
  "Movie_query_get d S = Some mv \<Longrightarrow> seats mv \<le> 0 \<Longrightarrow>
   fst (create_reservation \<lparr>j_movie_id = Some S, j_user_id = u\<rparr> d) = NoAvailability"
  by (simp add: create_reservation_def)

text \<open>
  C8. Let \<open>S\<close> be a showing just created with \<open>capacity\<close> seats, and let any
  sequence of requests follow in which no administrator deletes \<open>S\<close>. With \<open>N\<close>
  the number of successful reservation attempts against \<open>S\<close> in the sequence, \<open>S\<close>
  then has \<open>capacity - N\<close> seats left; \<open>N\<close> never exceeds a non-negative \<open>capacity\<close>; and
  once \<open>N = capacity\<close>, every further attempt against \<open>S\<close> is refused with
  NoAvailability.
\<close>

theorem seats_count_down:
  assumes "status (add_showing_movie data d0) = 201"
    and "j_seats data = Some capacity"
    and "S = next_id (map m_id (movies d0))"
    and "\<forall>ident. ident_is_admin ident \<longrightarrow> DeleteMovies (Some ident) S \<notin> set rqs"
  shows "(\<exists>mv. Movie_query_get (run fc rqs (store (add_showing_movie data d0))) S = Some mv
            \<and> seats mv = capacity - int (booked fc S rqs (store (add_showing_movie data d0))))
    \<and> (0 \<le> capacity \<longrightarrow> int (booked fc S rqs (store (add_showing_movie data d0))) \<le> capacity)
    \<and> (int (booked fc S rqs (store (add_showing_movie data d0))) = capacity \<longrightarrow>
         (\<forall>u. fst (create_reservation \<lparr>j_movie_id = Some S, j_user_id = u\<rparr>
                     (run fc rqs (store (add_showing_movie data d0)))) = NoAvailability))"
proof -
  let ?d1 = "store (add_showing_movie data d0)"
  from add_showing_movie_cases [of data d0] assms(1,2)
  obtain t r where eq: "add_showing_movie data d0 =
             ((Message ''Movie added successfully'', 201),
              d0\<lparr>movies := movies d0 @
                 [\<lparr>m_id = next_id (map m_id (movies d0)), title = t,
                   description = j_description data, room = r, seats = capacity\<rparr>]\<rparr>)"
    by (auto simp: status_def InvalidInput_def Conflict_def)
  have fresh: "find (\<lambda>m. m_id m = next_id (map m_id (movies d0))) (movies d0) = None"
    by (simp add: find_None_iff next_id_fresh)
  have new: "Movie_query_get ?d1 S =
      Some \<lparr>m_id = S, title = t, description = j_description data, room = r, seats = capacity\<rparr>"
    by (simp add: eq store_def Movie_query_get_def find_append fresh assms(3))
  from booked_run [OF new assms(4), of fc]
  obtain mv where mv: "Movie_query_get (run fc rqs ?d1) S = Some mv"
    "seats mv = capacity - int (booked fc S rqs ?d1)" "0 \<le> capacity \<longrightarrow> 0 \<le> seats mv"
    by auto
  have "fst (create_reservation \<lparr>j_movie_id = Some S, j_user_id = u\<rparr> (run fc rqs ?d1))
          = NoAvailability" if "int (booked fc S rqs ?d1) = capacity" for u
    using mv(1,2) that by (intro sold_out_refused) auto
  with mv show ?thesis by auto
qed

theorem seats_count_down_witness:
  "booked plain_facility 1 two_attempts (store (add_showing_movie alien_json empty_db)) = 1
   \<and> (\<exists>mv. Movie_query_get
          (run plain_facility two_attempts (store (add_showing_movie alien_json empty_db))) 1
          = Some mv \<and> seats mv = 0)
   \<and> fst (create_reservation (seat_request 1 9)
          (run plain_facility two_attempts (store (add_showing_movie alien_json empty_db))))
       = NoAvailability"
proof -
  have d1: "store (add_showing_movie alien_json empty_db)
      = \<lparr>users = [], movies = [alien], reservations = []\<rparr>"
    by (simp add: add_showing_movie_def alien_json_def empty_db_def store_def alien_def
                  next_id_def)
  have first: "create_reservation (seat_request 1 7)
        \<lparr>users = [], movies = [alien], reservations = []\<rparr>
      = (Created, sold_out)"
    by (simp add: create_reservation_def seat_request_def Movie_query_get_def alien_def
                  sold_out_def Created_def)
  have second: "create_reservation (seat_request 1 8) sold_out = (NoAvailability, sold_out)"
    by (simp add: create_reservation_def seat_request_def Movie_query_get_def alien_def
                  sold_out_def)
  have ids: "j_movie_id (seat_request 1 7) = Some 1" "j_movie_id (seat_request 1 8) = Some 1"
    by (simp_all add: seat_request_def)
  have b: "booked plain_facility 1 two_attempts (store (add_showing_movie alien_json empty_db))
      = 1"
    unfolding d1 two_attempts_def
    by (simp add: first second ids store_def status_def Created_def NoAvailability_def)
  have a1: "status (add_showing_movie alien_json empty_db) = 201"
    by (simp add: add_showing_movie_def alien_json_def empty_db_def status_def)
  have a2: "j_seats alien_json = Some 1"
    by (simp add: alien_json_def)
  have a3: "1 = next_id (map m_id (movies empty_db))"
    by (simp add: empty_db_def next_id_def)
  have a4: "\<forall>ident. ident_is_admin ident \<longrightarrow> DeleteMovies (Some ident) 1 \<notin> set two_attempts"
    by (simp add: two_attempts_def)
  from seats_count_down [OF a1 a2 a3 a4, of plain_facility] b
  show ?thesis by (simp add: seat_request_def)
qed

section \<open>Keys and references\<close>

lemma find_id_None: "(find (\<lambda>m. m_id m = i) ms = None) = (i \<notin> m_id ` set ms)"
  by (auto simp: find_None_iff)

lemma find_id_member: "find (\<lambda>m. m_id m = i) ms = Some mv \<Longrightarrow> mv \<in> set ms \<and> m_id mv = i"
  by (induction ms) (auto split: if_splits)

lemma next_id_not_member: "next_id (map m_id ms) \<notin> m_id ` set ms"
proof
  assume "next_id (map m_id ms) \<in> m_id ` set ms"
  then obtain m where "m \<in> set ms" "next_id (map m_id ms) = m_id m" by blast
  with next_id_fresh [of m ms] show False by simp
qed

lemma keyed_iff:
  "keyed d = (distinct (map m_id (movies d))
              \<and> movie_id ` set (reservations d) \<subseteq> m_id ` set (movies d))"
  by (auto simp: keyed_def list_all_iff find_id_None)

lemma keyed_step:
  assumes "keyed d"
  shows "keyed (store (exec fc rq d))"
proof (cases rule: exec_effect [of fc rq d])
  case same
  with assms show ?thesis by (simp add: keyed_iff)
next
  case (reserved data mv)
  from find_id_member [of "m_id mv" "movies d" mv] referenced_showingD(2) [OF reserved(2)]
  have "m_id mv \<in> m_id ` set (movies d)"
    by (auto simp: Movie_query_get_def)
  then have mem: "m_id mv \<in> m_id ` set (movies d)" .
  have ms: "map m_id (movies (store (exec fc rq d))) = map m_id (movies d)"
    by (simp add: reserved(4) store_def m_id_o_seats)
  from arg_cong [OF ms, of set]
  have im: "m_id ` set (movies (store (exec fc rq d))) = m_id ` set (movies d)"
    by simp
  have rs: "reservations (store (exec fc rq d)) = reservations d @
      [\<lparr>movie_id = m_id mv, user_id = j_user_id data, room_select = room mv\<rparr>]"
    by (simp add: reserved(4) store_def)
  from assms mem show ?thesis
    unfolding keyed_iff ms im rs by simp
next
  case (added who data t r s)
  with assms show ?thesis
    by (auto simp: keyed_iff store_def next_id_not_member)
next
  case (deleted ident mid mv)
  with assms show ?thesis
    by (auto simp: keyed_iff store_def distinct_map_filter)
qed

lemma keyed_run: "keyed d \<Longrightarrow> keyed (run fc rqs d)"
  by (induction rqs arbitrary: d) (simp_all add: keyed_step)

lemma keyed_create_app: "keyed (create_app fc empty_db)"
  by (simp add: keyed_def movies_create_app reservations_create_app)

section \<open>A first evening\<close>

lemma create_app_plain: "create_app plain_facility empty_db = lobby"
  by (simp add: create_app_def create_default_admin_def empty_db_def lobby_def
                plain_facility_def next_id_def)

lemma exec_add_alien:
  "admin_required admin (add_showing_movie alien_json) lobby
     = ((Message ''Movie added successfully'', 201), lobby\<lparr>movies := [alien]\<rparr>)"
  by (simp add: admin_required_def admin_def add_showing_movie_def alien_json_def
                lobby_def alien_def next_id_def)

lemma exec_add_negative:
  "admin_required admin (add_showing_movie negative_json) lobby
     = ((Message ''Movie added successfully'', 201), lobby\<lparr>movies := [alien\<lparr>seats := - 5\<rparr>]\<rparr>)"
  by (simp add: admin_required_def admin_def add_showing_movie_def alien_json_def
                negative_json_def lobby_def alien_def next_id_def)

lemma exec_reserve:
  "create_reservation (seat_request 1 u) (lobby\<lparr>movies := [alien]\<rparr>)
     = (Created,
        lobby\<lparr>movies := [alien\<lparr>seats := 0\<rparr>],
              reservations := [\<lparr>movie_id = 1, user_id = Some u, room_select = ''A''\<rparr>]\<rparr>)"
  by (simp add: create_reservation_def seat_request_def Movie_query_get_def lobby_def
                alien_def Created_def)

lemma exec_refuse:
  "create_reservation (seat_request 1 u)
        (lobby\<lparr>movies := [alien\<lparr>seats := 0\<rparr>], reservations := rs\<rparr>)
     = (NoAvailability, lobby\<lparr>movies := [alien\<lparr>seats := 0\<rparr>], reservations := rs\<rparr>)"
  by (simp add: create_reservation_def seat_request_def Movie_query_get_def lobby_def
                alien_def)

lemma run_regular:
  "run plain_facility regular (create_app plain_facility empty_db)
     = lobby\<lparr>movies := [alien\<lparr>seats := 0\<rparr>],
             reservations := [\<lparr>movie_id = 1, user_id = Some 1, room_select = ''A''\<rparr>]\<rparr>"
  by (simp add: regular_def create_app_plain exec_add_alien exec_reserve store_def)

lemma run_stranger:
  "run plain_facility stranger (create_app plain_facility empty_db)
     = lobby\<lparr>movies := [alien\<lparr>seats := 0\<rparr>],
             reservations := [\<lparr>movie_id = 1, user_id = Some 99, room_select = ''A''\<rparr>]\<rparr>"
  by (simp add: stranger_def create_app_plain exec_add_alien exec_reserve store_def)

lemma run_opening_night:
  "run plain_facility opening_night (create_app plain_facility empty_db)
     = lobby\<lparr>movies := [alien\<lparr>seats := 0\<rparr>],
             reservations := [\<lparr>movie_id = 1, user_id = Some 7, room_select = ''A''\<rparr>]\<rparr>"
  by (simp add: opening_night_def two_attempts_def create_app_plain exec_add_alien
                exec_reserve exec_refuse store_def)

section \<open>What a reservation refers to\<close>

lemma find_u_id_None: "(find (\<lambda>u. u_id u = i) us = None) = (i \<notin> set (map u_id us))"
  by (auto simp: find_None_iff)

lemma user_bound_iff:
  "user_bound d =
     (\<forall>r \<in> set (reservations d). \<exists>u. user_id r = Some u \<and> u \<in> set (map u_id (users d)))"
  unfolding user_bound_def list_all_iff User_query_get_def find_u_id_None
  by (fastforce split: option.splits)

lemma user_bound_step:
  assumes "user_bound d" and "users_exist fc [rq] d"
  shows "user_bound (store (exec fc rq d))"
proof (cases rule: exec_effect [of fc rq d])
  case same
  from assms(1) same(2,3) show ?thesis
    unfolding user_bound_iff by fastforce
next
  case (reserved data mv)
  from assms(2) reserved(1) obtain u where u: "j_user_id data = Some u"
      "u \<in> set (map u_id (users d))"
    by (auto simp: User_query_get_def find_u_id_None split: option.splits)
  have us: "users (store (exec fc rq d)) = users d"
    and rs: "reservations (store (exec fc rq d)) = reservations d @
      [\<lparr>movie_id = m_id mv, user_id = j_user_id data, room_select = room mv\<rparr>]"
    by (simp_all add: reserved(4) store_def)
  from assms(1) u show ?thesis
    unfolding user_bound_iff us rs by auto
next
  case (added who data t r s)
  have us: "users (store (exec fc rq d)) = users d"
    and rs: "reservations (store (exec fc rq d)) = reservations d"
    by (simp_all add: added(6) store_def)
  from assms(1) show ?thesis
    unfolding user_bound_iff us rs .
next
  case (deleted ident mid mv)
  have us: "users (store (exec fc rq d)) = users d"
    and rs: "reservations (store (exec fc rq d))
               = filter (\<lambda>r. movie_id r \<noteq> mid) (reservations d)"
    by (simp_all add: deleted(4) store_def)
  from assms(1) show ?thesis
    unfolding user_bound_iff us rs by auto
qed

lemma user_bound_run:
  "user_bound d \<Longrightarrow> users_exist fc rqs d \<Longrightarrow> user_bound (run fc rqs d)"
proof (induction rqs arbitrary: d)
  case Nil
  then show ?case by simp
next
  case (Cons rq rqs)
  from Cons.prems(2) have one: "users_exist fc [rq] d"
    and rest: "users_exist fc rqs (store (exec fc rq d))"
    by simp_all
  from Cons.IH [OF user_bound_step [OF Cons.prems(1) one] rest] show ?case
    by simp
qed

lemma user_bound_create_app: "user_bound (create_app fc empty_db)"
  by (simp add: user_bound_def reservations_create_app)

text \<open>
  C9, as the code has it. A reservation is created only when the showing of the
  request exists, and from start-up on, after every sequence of requests, every
  reservation references an existing showing. The user of a request is not looked
  up: a reservation references an existing user provided that every reservation
  request of the sequence named a user that existed when it was made (the input
  constraint of the contract).
\<close>

theorem reservations_reference:
  "(reservations (store (create_reservation data d)) \<noteq> reservations d \<longrightarrow>
      referenced_showing data d \<noteq> None)
   \<and> (\<forall>r \<in> set (reservations (run fc rqs (create_app fc empty_db))).
        Movie_query_get (run fc rqs (create_app fc empty_db)) (movie_id r) \<noteq> None
        \<and> (users_exist fc rqs (create_app fc empty_db) \<longrightarrow>
             (\<exists>u. user_id r = Some u
                  \<and> User_query_get (run fc rqs (create_app fc empty_db)) u \<noteq> None)))"
proof (intro conjI impI ballI)
  assume "reservations (store (create_reservation data d)) \<noteq> reservations d"
  with create_reservation_unchanged [of data d] show "referenced_showing data d \<noteq> None"
    by auto
next
  fix r
  assume r: "r \<in> set (reservations (run fc rqs (create_app fc empty_db)))"
  from keyed_run [OF keyed_create_app, of fc rqs fc] r
  show "Movie_query_get (run fc rqs (create_app fc empty_db)) (movie_id r) \<noteq> None"
    by (simp add: keyed_def list_all_iff Movie_query_get_def)
  assume "users_exist fc rqs (create_app fc empty_db)"
  from user_bound_run [OF user_bound_create_app this] r
  show "\<exists>u. user_id r = Some u
           \<and> User_query_get (run fc rqs (create_app fc empty_db)) u \<noteq> None"
    by (auto simp: user_bound_def list_all_iff split: option.splits)
qed

theorem reservations_reference_witness:
  "referenced_showing (seat_request 1 7) one_seat_left \<noteq> None
   \<and> users_exist plain_facility regular (create_app plain_facility empty_db)
   \<and> reservations (run plain_facility regular (create_app plain_facility empty_db))
       = [\<lparr>movie_id = 1, user_id = Some 1, room_select = ''A''\<rparr>]
   \<and> Movie_query_get (run plain_facility regular (create_app plain_facility empty_db)) 1 \<noteq> None
   \<and> User_query_get (run plain_facility regular (create_app plain_facility empty_db)) 1 \<noteq> None"
proof -
  have step: "reservations (store (create_reservation (seat_request 1 7) one_seat_left))
      \<noteq> reservations one_seat_left"
    by (simp add: create_reservation_def seat_request_def one_seat_left_def
                  Movie_query_get_def alien_def store_def)
  have ue: "users_exist plain_facility regular (create_app plain_facility empty_db)"
    by (simp add: regular_def create_app_plain exec_add_alien store_def seat_request_def
                  User_query_get_def)
       (simp add: lobby_def)
  have rs: "reservations (run plain_facility regular (create_app plain_facility empty_db))
       = [\<lparr>movie_id = 1, user_id = Some 1, room_select = ''A''\<rparr>]"
    by (simp add: run_regular)
  from reservations_reference
    [of "seat_request 1 7" one_seat_left plain_facility regular] step ue
  show ?thesis by (simp add: rs)
qed

text \<open>
  A reservation for user 99 is recorded although the users table holds no user 99.
\<close>

theorem unknown_user_reserved:
  "map user_id (reservations (run plain_facility stranger (create_app plain_facility empty_db)))
     = [Some 99]
   \<and> User_query_get (run plain_facility stranger (create_app plain_facility empty_db)) 99
       = None"
  by (simp add: run_stranger User_query_get_def) (simp add: lobby_def)

section \<open>Seats and reservations add up\<close>

lemma balanced_iff:
  "balanced d tot =
     (\<forall>mv \<in> set (movies d).
        \<exists>t. tot (m_id mv) = Some t \<and> seats mv + int (reserved d (m_id mv)) = t
            \<and> (0 \<le> t \<longrightarrow> 0 \<le> seats mv))"
  unfolding balanced_def list_all_iff by (fastforce split: option.splits)

lemma created_other:
  "status res \<noteq> 201 \<or> (\<exists>data. rq = PostUsers data) \<Longrightarrow> created rq d res tot = tot"
  by (cases rq) (auto simp: created_def split: option.splits)

lemma created_added:
  "rq = PostShowingMovies who data \<Longrightarrow> j_seats data = Some s \<Longrightarrow> status res = 201 \<Longrightarrow>
   created rq d res tot = tot(next_id (map m_id (movies d)) \<mapsto> s)"
  by (simp add: created_def)

lemma reserved_cong: "reservations d' = reservations d \<Longrightarrow> reserved d' i = reserved d i"
  by (simp add: reserved_def)

lemma reserved_unreferenced: "i \<notin> movie_id ` set (reservations d) \<Longrightarrow> reserved d i = 0"
  by (auto simp: reserved_def filter_empty_conv)

lemma balanced_step:
  assumes k: "keyed d" and b: "balanced d tot"
  shows "balanced (store (exec fc rq d)) (created rq d (exec fc rq d) tot)"
proof (cases rule: exec_effect [of fc rq d])
  case same
  from same(4) have "created rq d (exec fc rq d) tot = tot"
    by (rule created_other)
  with b same(1) reserved_cong [OF same(2)] show ?thesis
    by (simp add: balanced_iff)
next
  case (reserved data w)
  let ?r = "\<lparr>movie_id = m_id w, user_id = j_user_id data, room_select = room w\<rparr>"
  let ?upd = "\<lambda>m. if m_id m = m_id w then m\<lparr>seats := seats w - 1\<rparr> else m"
  have tot: "created rq d (exec fc rq d) tot = tot"
    by (simp add: created_def reserved(1))
  have ms: "movies (store (exec fc rq d)) = map ?upd (movies d)"
    by (simp add: reserved(4) store_def)
  have cnt: "reserved (store (exec fc rq d)) i = reserved d i + (if m_id w = i then 1 else 0)"
    for i
    by (simp add: reserved(4) store_def reserved_def)
  from find_id_member [of "m_id w" "movies d" w] referenced_showingD(2) [OF reserved(2)]
  have w: "w \<in> set (movies d)"
    by (simp add: Movie_query_get_def)
  from k have inj: "inj_on m_id (set (movies d))"
    by (simp add: keyed_iff distinct_map)
  have step: "\<exists>t. tot (m_id (?upd m)) = Some t
          \<and> seats (?upd m) + int (reserved (store (exec fc rq d)) (m_id (?upd m))) = t
          \<and> (0 \<le> t \<longrightarrow> 0 \<le> seats (?upd m))"
    if m: "m \<in> set (movies d)" for m
  proof -
    from b m obtain t where t: "tot (m_id m) = Some t"
        "seats m + int (reserved d (m_id m)) = t" "0 \<le> t \<longrightarrow> 0 \<le> seats m"
      unfolding balanced_iff by blast
    show ?thesis
    proof (cases "m_id m = m_id w")
      case True
      with inj m w have "m = w" by (auto dest: inj_onD)
      with t reserved(3) show ?thesis by (simp add: cnt)
    next
      case False
      with t show ?thesis by (simp add: cnt)
    qed
  qed
  show ?thesis
    unfolding balanced_iff tot ms
  proof
    fix mv
    assume "mv \<in> set (map ?upd (movies d))"
    then obtain m where m: "m \<in> set (movies d)" "mv = ?upd m"
      unfolding set_map by blast
    from step [OF m(1)]
    show "\<exists>t. tot (m_id mv) = Some t
          \<and> seats mv + int (reserved (store (exec fc rq d)) (m_id mv)) = t
          \<and> (0 \<le> t \<longrightarrow> 0 \<le> seats mv)"
      unfolding m(2) .
  qed
next
  case (added who data t r s)
  let ?nid = "next_id (map m_id (movies d))"
  let ?new = "\<lparr>m_id = ?nid, title = t, description = j_description data, room = r, seats = s\<rparr>"
  have tot: "created rq d (exec fc rq d) tot = tot(?nid \<mapsto> s)"
    by (rule created_added [OF added(1) added(4)]) (simp add: added(6) status_def)
  have ms: "movies (store (exec fc rq d)) = movies d @ [?new]"
    by (simp add: added(6) store_def)
  have cnt: "reserved (store (exec fc rq d)) i = reserved d i" for i
    by (rule reserved_cong) (simp add: added(6) store_def)
  from k next_id_not_member [of "movies d"] have "?nid \<notin> movie_id ` set (reservations d)"
    unfolding keyed_iff by blast
  then have zero: "reserved d ?nid = 0"
    by (rule reserved_unreferenced)
  have old: "\<exists>t'. (tot(?nid \<mapsto> s)) (m_id m) = Some t'
          \<and> seats m + int (reserved d (m_id m)) = t' \<and> (0 \<le> t' \<longrightarrow> 0 \<le> seats m)"
    if m: "m \<in> set (movies d)" for m
  proof -
    from b m obtain t' where "tot (m_id m) = Some t'"
        "seats m + int (reserved d (m_id m)) = t'" "0 \<le> t' \<longrightarrow> 0 \<le> seats m"
      unfolding balanced_iff by blast
    with next_id_fresh [OF m] show ?thesis by simp
  qed
  from old zero show ?thesis
    unfolding balanced_iff tot ms cnt by simp
next
  case (deleted ident mid w)
  have tot: "created rq d (exec fc rq d) tot = tot"
    by (simp add: created_def deleted(1))
  have ms: "movies (store (exec fc rq d)) = filter (\<lambda>m. m_id m \<noteq> mid) (movies d)"
    by (simp add: deleted(4) store_def)
  have cnt: "reserved (store (exec fc rq d)) i = reserved d i" if "i \<noteq> mid" for i
    using that by (simp add: deleted(4) store_def reserved_def filter_filter_other del: filter_filter)
  from b show ?thesis
    unfolding balanced_iff tot ms by (auto simp: cnt)
qed

lemma balanced_run:
  "keyed d \<Longrightarrow> balanced d tot \<Longrightarrow> balanced (run fc rqs d) (total_seats fc rqs d tot)"
proof (induction rqs arbitrary: d tot)
  case Nil
  then show ?case by simp
next
  case (Cons rq rqs)
  from Cons.IH [OF keyed_step [OF Cons.prems(1), of fc rq] balanced_step [OF Cons.prems, of fc rq]]
  show ?case by simp
qed

lemma balanced_create_app: "balanced (create_app fc empty_db) Map.empty"
  by (simp add: balanced_def movies_create_app)

text \<open>
  C2, as the code has it. The total seat count of a showing is the seats value it
  was created with. From start-up on, after every sequence of requests, every
  showing has \<open>remaining + live reservations = total\<close> and \<open>remaining \<le> total\<close>; and
  for a showing whose total is not negative, \<open>0 \<le> remaining\<close> and the number of live
  reservations does not exceed the total.
\<close>

theorem seats_within_capacity:
  "\<forall>mv \<in> set (movies (run fc rqs (create_app fc empty_db))).
     \<exists>t. total_seats fc rqs (create_app fc empty_db) Map.empty (m_id mv) = Some t
       \<and> seats mv + int (reserved (run fc rqs (create_app fc empty_db)) (m_id mv)) = t
       \<and> seats mv \<le> t
       \<and> (0 \<le> t \<longrightarrow>
            0 \<le> seats mv
            \<and> int (reserved (run fc rqs (create_app fc empty_db)) (m_id mv)) \<le> t)"
proof
  fix mv
  assume "mv \<in> set (movies (run fc rqs (create_app fc empty_db)))"
  with balanced_run [OF keyed_create_app [of fc] balanced_create_app [of fc], of fc rqs]
  obtain t where "total_seats fc rqs (create_app fc empty_db) Map.empty (m_id mv) = Some t"
    "seats mv + int (reserved (run fc rqs (create_app fc empty_db)) (m_id mv)) = t"
    "0 \<le> t \<longrightarrow> 0 \<le> seats mv"
    unfolding balanced_iff by blast
  then show "\<exists>t. total_seats fc rqs (create_app fc empty_db) Map.empty (m_id mv) = Some t
       \<and> seats mv + int (reserved (run fc rqs (create_app fc empty_db)) (m_id mv)) = t
       \<and> seats mv \<le> t
       \<and> (0 \<le> t \<longrightarrow>
            0 \<le> seats mv
            \<and> int (reserved (run fc rqs (create_app fc empty_db)) (m_id mv)) \<le> t)"
    by (intro exI [of _ t]) auto
qed

theorem seats_within_capacity_witness:
  "alien\<lparr>seats := 0\<rparr>
     \<in> set (movies (run plain_facility opening_night (create_app plain_facility empty_db)))
   \<and> total_seats plain_facility opening_night (create_app plain_facility empty_db) Map.empty 1
       = Some 1
   \<and> reserved (run plain_facility opening_night (create_app plain_facility empty_db)) 1 = 1"
proof -
  let ?D = "run plain_facility opening_night (create_app plain_facility empty_db)"
  let ?T = "total_seats plain_facility opening_night (create_app plain_facility empty_db)
              Map.empty"
  have mem: "alien\<lparr>seats := 0\<rparr> \<in> set (movies ?D)"
    by (simp add: run_opening_night)
  have js: "j_seats alien_json = Some 1" and ml: "next_id (map m_id (movies lobby)) = 1"
    by (simp_all add: alien_json_def lobby_def next_id_def)
  have T: "?T 1 = Some 1"
    by (simp add: opening_night_def two_attempts_def create_app_plain exec_add_alien
                  created_def status_def store_def js ml)
  from seats_within_capacity [of plain_facility opening_night] mem
  obtain t where t: "?T (m_id (alien\<lparr>seats := 0\<rparr>)) = Some t"
    "seats (alien\<lparr>seats := 0\<rparr>) + int (reserved ?D (m_id (alien\<lparr>seats := 0\<rparr>))) = t"
    by blast
  have "m_id (alien\<lparr>seats := 0\<rparr>) = 1"
    by (simp add: alien_def)
  with t T have "int (reserved ?D 1) = 1"
    by simp
  with mem T show ?thesis by simp
qed

text \<open>
  A showing asked for with \<open>seats = -5\<close> by an administrator stands in the store with
  \<open>-5\<close> remaining seats.
\<close>

theorem negative_seats_reached:
  "map seats (movies (run plain_facility [PostShowingMovies admin negative_json]
                        (create_app plain_facility empty_db))) = [- 5]"
  by (simp add: create_app_plain exec_add_negative store_def)

end
